theory Spec2Isabelle
  imports Complex_Main "HOL-Library.AList"
begin

section \<open>Numbers\<close>

text \<open>
  The calculations module (\<^verbatim>\<open>calculations.js\<close>, object \<^verbatim>\<open>AttendanceCalculator\<close>) computes
  with JavaScript numbers. They are modelled as exact reals: the rounding of IEEE doubles is
  not part of the model. Two special values occur in the module.
  \<^item> \<^verbatim>\<open>Infinity\<close> is returned by \<^verbatim>\<open>classesNeededToReachThreshold\<close> and is the initial value
    of \<^verbatim>\<open>minCanSkip\<close>; the type \<open>number\<close> adds it to the reals, and only the variables that
    can hold it have this type.
  \<^item> Reading a property that an object does not have gives \<^verbatim>\<open>undefined\<close>, and arithmetic on
    it gives \<^verbatim>\<open>NaN\<close>; both are \<open>None\<close> of \<open>real option\<close>.
\<close>

datatype number = Finite real | Infinity

text \<open>\<^verbatim>\<open>compNeeded > 0\<close>\<close>

fun gt_zero :: "number \<Rightarrow> bool" where
  "gt_zero (Finite x) = (0 < x)"
| "gt_zero Infinity = True"

text \<open>\<^verbatim>\<open>totalClassesNeeded += compNeeded\<close>\<close>

fun plus_number :: "number \<Rightarrow> number \<Rightarrow> number" where
  "plus_number (Finite x) (Finite y) = Finite (x + y)"
| "plus_number _ _ = Infinity"

text \<open>\<^verbatim>\<open>compCanSkip < minCanSkip\<close>, a finite number against one that may be infinite\<close>

fun less_number :: "real \<Rightarrow> number \<Rightarrow> bool" where
  "less_number x (Finite y) = (x < y)"
| "less_number x Infinity = True"

text \<open>\<^verbatim>\<open>Math.min(n, cap)\<close> with a finite cap\<close>

fun Math_min :: "number \<Rightarrow> real \<Rightarrow> real" where
  "Math_min (Finite x) cap = min x cap"
| "Math_min Infinity cap = cap"

text \<open>\<^verbatim>\<open>x || 0\<close> on a number: \<open>0\<close> when \<open>x\<close> is falsy, that is \<open>0\<close>\<close>

definition or_zero :: "real \<Rightarrow> real" where
  "or_zero x = (if x = 0 then 0 else x)"

text \<open>\<^verbatim>\<open>x + y\<close> and \<^verbatim>\<open>x - y\<close> where an operand may be \<^verbatim>\<open>undefined\<close> or \<^verbatim>\<open>NaN\<close>\<close>

fun nan_plus :: "real option \<Rightarrow> real option \<Rightarrow> real option" where
  "nan_plus (Some x) (Some y) = Some (x + y)"
| "nan_plus _ _ = None"

fun nan_minus :: "real option \<Rightarrow> real option \<Rightarrow> real option" where
  "nan_minus (Some x) (Some y) = Some (x - y)"
| "nan_minus _ _ = None"

section \<open>The calculator and its mode\<close>

record calculator =
  attendanceMode :: string

definition setMode :: "calculator \<Rightarrow> string \<Rightarrow> calculator" where
  "setMode this mode =
     (if mode = ''ERP'' \<or> mode = ''TCBR_CORRECTED''
      then this\<lparr>attendanceMode := mode\<rparr>
      else this\<lparr>attendanceMode := ''ERP''\<rparr>)"

definition getEffectiveAttended :: "calculator \<Rightarrow> real \<Rightarrow> real \<Rightarrow> real" where
  "getEffectiveAttended this attended tcbr =
     (if attendanceMode this = ''TCBR_CORRECTED'' then attended + or_zero tcbr else attended)"

section \<open>Component percentage\<close>

text \<open>
  The parameter \<^verbatim>\<open>tcbr\<close> of the functions on one component has the default value 0 in the
  source; the model takes it as an explicit argument, so a call without it passes 0.
\<close>

definition calculateComponentPercentage :: "calculator \<Rightarrow> real \<Rightarrow> real \<Rightarrow> real \<Rightarrow> real" where
  "calculateComponentPercentage this attended conducted tcbr =
     (if conducted \<le> 0 then 100
      else
        let effectiveAttended = getEffectiveAttended this attended tcbr;
            percentage = (effectiveAttended / conducted) * 100
        in if percentage < 0 then 0
           else if percentage > 100 then 100
           else percentage)"

section \<open>Status and danger score\<close>

datatype status = Safe | Borderline | Critical

definition getStatus :: "real \<Rightarrow> real \<Rightarrow> status" where
  "getStatus percentage threshold =
     (if percentage \<ge> threshold + 5 then Safe
      else if percentage \<ge> threshold then Borderline
      else Critical)"

definition calculateDangerScore :: "real \<Rightarrow> real \<Rightarrow> real" where
  "calculateDangerScore percentage threshold =
     (if percentage \<ge> threshold then max 0 (threshold + 10 - percentage)
      else 50 + (threshold - percentage))"

section \<open>Classes needed and classes that can be skipped\<close>

definition classesNeededToReachThreshold ::
  "calculator \<Rightarrow> real \<Rightarrow> real \<Rightarrow> real \<Rightarrow> real \<Rightarrow> number" where
  "classesNeededToReachThreshold this attended conducted threshold tcbr =
     (let effectiveAttended = getEffectiveAttended this attended tcbr;
          currentPercentage = calculateComponentPercentage this attended conducted tcbr
      in if currentPercentage \<ge> threshold then Finite 0
         else if threshold \<ge> 100
         then (if effectiveAttended < conducted then Infinity else Finite 0)
         else
           let thresholdDecimal = threshold / 100;
               numerator = (thresholdDecimal * conducted) - effectiveAttended;
               denominator = 1 - thresholdDecimal
           in if denominator \<le> 0 then Infinity
              else
                let classesNeeded = real_of_int \<lceil>numerator / denominator\<rceil>
                in Finite (max 0 classesNeeded))"

definition classesCanSkip :: "calculator \<Rightarrow> real \<Rightarrow> real \<Rightarrow> real \<Rightarrow> real \<Rightarrow> real" where
  "classesCanSkip this attended conducted threshold tcbr =
     (let effectiveAttended = getEffectiveAttended this attended tcbr;
          currentPercentage = calculateComponentPercentage this attended conducted tcbr
      in if currentPercentage < threshold then 0
         else if threshold \<le> 0 then 100
         else
           let thresholdDecimal = threshold / 100;
               numerator = effectiveAttended - (thresholdDecimal * conducted);
               denominator = thresholdDecimal
           in if denominator \<le> 0 then 100
              else
                let canSkip = real_of_int \<lfloor>numerator / denominator\<rfloor>
                in if canSkip > 100 then 100
                   else max 0 canSkip)"

section \<open>Missing the next class\<close>

record miss_simulation =
  currentPercentage :: real
  newPercentage :: real
  percentageDrop :: real
  wouldFallBelowThreshold :: bool
  isAlreadyBelowThreshold :: bool

definition simulateMissNextClass ::
  "calculator \<Rightarrow> real \<Rightarrow> real \<Rightarrow> real \<Rightarrow> real \<Rightarrow> miss_simulation" where
  "simulateMissNextClass this attended conducted threshold tcbr =
     (let currentPercentage = calculateComponentPercentage this attended conducted tcbr;
          newConducted = conducted + 1;
          newPercentage = calculateComponentPercentage this attended newConducted tcbr
      in \<lparr>currentPercentage = currentPercentage,
          newPercentage = newPercentage,
          percentageDrop = currentPercentage - newPercentage,
          wouldFallBelowThreshold = (currentPercentage \<ge> threshold \<and> newPercentage < threshold),
          isAlreadyBelowThreshold = (currentPercentage < threshold)\<rparr>)"

section \<open>The component functions in double precision\<close>

text \<open>
  The definitions above compute with exact real numbers. The source computes with IEEE 754
  binary64 numbers: every division, multiplication, addition and subtraction is rounded to
  the nearest double, ties to even. For the counts and thresholds that occur, rounding can
  move a percentage just below a threshold that the counts meet exactly, and it can move a
  quotient just below or above an integer, which changes its floor or ceiling. This section
  models the functions on one component with every operation rounded, so that the claims
  that depend on rounding are settled on the arithmetic of the source.

  \<open>fl x\<close> is the double nearest to \<open>x\<close>. For \<open>x\<close> with \<open>2 ^ e \<le> \<bar>x\<bar> < 2 ^ (e + 1)\<close> the doubles
  around \<open>x\<close> are the multiples of \<open>2 ^ (e - 52)\<close>; below \<open>2 ^ (- 1022)\<close> (subnormal numbers)
  they are the multiples of \<open>2 ^ (- 1074)\<close>. Overflow to \<^verbatim>\<open>Infinity\<close>, at \<open>2 ^ 1024\<close>, is not
  modelled. Comparisons, \<^verbatim>\<open>Math.floor\<close>, \<^verbatim>\<open>Math.ceil\<close> and \<^verbatim>\<open>Math.max\<close> are exact on doubles.
\<close>

text \<open>The number of binary digits of a natural number.\<close>

fun bitLength :: "nat \<Rightarrow> nat" where
  "bitLength n = (if n = 0 then 0 else Suc (bitLength (n div 2)))"

declare bitLength.simps [simp del]

definition pow2 :: "int \<Rightarrow> real" where
  "pow2 k = (if 0 \<le> k then 2 ^ nat k else 1 / 2 ^ nat (- k))"

text \<open>The integer nearest to \<open>y\<close>, the even one of the two when \<open>y\<close> lies halfway.\<close>

definition roundHalfEven :: "real \<Rightarrow> int" where
  "roundHalfEven y =
     (let f = \<lfloor>y\<rfloor>; d = y - real_of_int f
      in if d < 1 / 2 then f
         else if d > 1 / 2 then f + 1
         else if even f then f else f + 1)"

text \<open>For \<open>a > 0\<close>, the exponent \<open>e\<close> with \<open>2 ^ e \<le> a < 2 ^ (e + 1)\<close>.\<close>

definition binadeExponent :: "real \<Rightarrow> int" where
  "binadeExponent a =
     (if a \<ge> 1 then int (bitLength (nat \<lfloor>a\<rfloor>)) - 1
      else - int (bitLength (nat (\<lceil>1 / a\<rceil> - 1))))"

definition fl :: "real \<Rightarrow> real" where
  "fl x =
     (if x = 0 then 0
      else
        let a = \<bar>x\<bar>;
            e = max (binadeExponent a) (- 1022);
            u = pow2 (e - 52);
            r = real_of_int (roundHalfEven (a / u)) * u
        in if x > 0 then r else - r)"

definition getEffectiveAttended64 :: "calculator \<Rightarrow> real \<Rightarrow> real \<Rightarrow> real" where
  "getEffectiveAttended64 this attended tcbr =
     (if attendanceMode this = ''TCBR_CORRECTED'' then fl (attended + or_zero tcbr)
      else attended)"

definition calculateComponentPercentage64 :: "calculator \<Rightarrow> real \<Rightarrow> real \<Rightarrow> real \<Rightarrow> real" where
  "calculateComponentPercentage64 this attended conducted tcbr =
     (if conducted \<le> 0 then 100
      else
        let effectiveAttended = getEffectiveAttended64 this attended tcbr;
            percentage = fl (fl (effectiveAttended / conducted) * 100)
        in if percentage < 0 then 0
           else if percentage > 100 then 100
           else percentage)"

definition classesNeededToReachThreshold64 ::
  "calculator \<Rightarrow> real \<Rightarrow> real \<Rightarrow> real \<Rightarrow> real \<Rightarrow> number" where
  "classesNeededToReachThreshold64 this attended conducted threshold tcbr =
     (let effectiveAttended = getEffectiveAttended64 this attended tcbr;
          currentPercentage = calculateComponentPercentage64 this attended conducted tcbr
      in if currentPercentage \<ge> threshold then Finite 0
         else if threshold \<ge> 100
         then (if effectiveAttended < conducted then Infinity else Finite 0)
         else
           let thresholdDecimal = fl (threshold / 100);
               numerator = fl (fl (thresholdDecimal * conducted) - effectiveAttended);
               denominator = fl (1 - thresholdDecimal)
           in if denominator \<le> 0 then Infinity
              else
                let classesNeeded = real_of_int \<lceil>fl (numerator / denominator)\<rceil>
                in Finite (max 0 classesNeeded))"

definition classesCanSkip64 :: "calculator \<Rightarrow> real \<Rightarrow> real \<Rightarrow> real \<Rightarrow> real \<Rightarrow> real" where
  "classesCanSkip64 this attended conducted threshold tcbr =
     (let effectiveAttended = getEffectiveAttended64 this attended tcbr;
          currentPercentage = calculateComponentPercentage64 this attended conducted tcbr
      in if currentPercentage < threshold then 0
         else if threshold \<le> 0 then 100
         else
           let thresholdDecimal = fl (threshold / 100);
               numerator = fl (effectiveAttended - fl (thresholdDecimal * conducted));
               denominator = thresholdDecimal
           in if denominator \<le> 0 then 100
              else
                let canSkip = real_of_int \<lfloor>fl (numerator / denominator)\<rfloor>
                in if canSkip > 100 then 100
                   else max 0 canSkip)"

section \<open>Subject percentage\<close>

record component =
  conducted :: real
  attended :: real
  tcbr :: real

text \<open>
  A \<^verbatim>\<open>components\<close> object is the list of its entries in the order of \<^verbatim>\<open>Object.keys\<close>.
  The loop of \<^verbatim>\<open>calculateSubjectPercentage\<close> carries \<^verbatim>\<open>totalPercentage\<close> and
  \<^verbatim>\<open>validComponents\<close>.
\<close>

fun subjectPercentageLoop ::
  "calculator \<Rightarrow> (string \<times> component) list \<Rightarrow> real \<times> nat \<Rightarrow> real \<times> nat" where
  "subjectPercentageLoop this [] acc = acc"
| "subjectPercentageLoop this ((type, c) # rest) (totalPercentage, validComponents) =
     (if conducted c > 0
      then subjectPercentageLoop this rest
             (totalPercentage
                + calculateComponentPercentage this (attended c) (conducted c)
                    (or_zero (tcbr c)),
              validComponents + 1)
      else subjectPercentageLoop this rest (totalPercentage, validComponents))"

definition calculateSubjectPercentage :: "calculator \<Rightarrow> (string \<times> component) list \<Rightarrow> real" where
  "calculateSubjectPercentage this components =
     (if length components = 0 then 0
      else
        let (totalPercentage, validComponents) = subjectPercentageLoop this components (0, 0)
        in if validComponents = 0 then 100
           else totalPercentage / real validComponents)"

section \<open>Per-subject simulation\<close>

text \<open>
  One entry of \<^verbatim>\<open>componentData\<close>. The raw values \<^verbatim>\<open>conducted\<close>, \<^verbatim>\<open>attended\<close> and
  \<^verbatim>\<open>tcbr\<close> echoed in it are the fields inherited from \<open>component\<close>.
\<close>

record component_data = component +
  percentage :: real
  classesNeeded :: number
  canSkip :: real
  status :: status
  nextClassSimulation :: miss_simulation
  effectiveAttended :: real

text \<open>
  The loop of \<^verbatim>\<open>calculateSubjectSimulation\<close> carries \<^verbatim>\<open>componentData\<close>,
  \<^verbatim>\<open>weakestComponent\<close> (\<open>None\<close> is \<^verbatim>\<open>null\<close>), \<^verbatim>\<open>weakestPercentage\<close>,
  \<^verbatim>\<open>totalClassesNeeded\<close> and \<^verbatim>\<open>minCanSkip\<close>. The assignment
  \<^verbatim>\<open>componentData[type] = ...\<close> replaces the entry of an existing key in place and appends
  a new key, which is \<open>AList.update\<close>.
\<close>

fun subjectSimulationLoop ::
  "calculator \<Rightarrow> real \<Rightarrow> (string \<times> component) list
   \<Rightarrow> (string \<times> component_data) list \<times> string option \<times> real \<times> number \<times> number
   \<Rightarrow> (string \<times> component_data) list \<times> string option \<times> real \<times> number \<times> number" where
  "subjectSimulationLoop this threshold [] acc = acc"
| "subjectSimulationLoop this threshold ((type, c) # rest)
     (componentData, weakestComponent, weakestPercentage, totalClassesNeeded, minCanSkip) =
     (let tcbr0 = or_zero (tcbr c);
          compPercentage = calculateComponentPercentage this (attended c) (conducted c) tcbr0;
          compNeeded = classesNeededToReachThreshold this (attended c) (conducted c) threshold tcbr0;
          compCanSkip = classesCanSkip this (attended c) (conducted c) threshold tcbr0;
          simulation = simulateMissNextClass this (attended c) (conducted c) threshold tcbr0;
          componentData1 = AList.update type
            \<lparr>conducted = conducted c,
             attended = attended c,
             tcbr = tcbr0,
             percentage = compPercentage,
             classesNeeded = compNeeded,
             canSkip = compCanSkip,
             status = getStatus compPercentage threshold,
             nextClassSimulation = simulation,
             effectiveAttended = getEffectiveAttended this (attended c) tcbr0\<rparr>
            componentData;
          weakestComponent1 =
            (if compPercentage < weakestPercentage then Some type else weakestComponent);
          weakestPercentage1 =
            (if compPercentage < weakestPercentage then compPercentage else weakestPercentage);
          totalClassesNeeded1 =
            (if gt_zero compNeeded then plus_number totalClassesNeeded compNeeded
             else totalClassesNeeded);
          minCanSkip1 =
            (if less_number compCanSkip minCanSkip then Finite compCanSkip else minCanSkip)
      in subjectSimulationLoop this threshold rest
           (componentData1, weakestComponent1, weakestPercentage1, totalClassesNeeded1,
            minCanSkip1))"

text \<open>The object returned for a subject that has components.\<close>

record simulation_result =
  percentage :: real
  status :: status
  dangerScore :: real
  componentData :: "(string \<times> component_data) list"
  weakestComponent :: "string option"
  weakestPercentage :: real
  totalClassesNeeded :: real
  canSkip :: real

text \<open>
  \<^verbatim>\<open>calculateSubjectSimulation\<close> returns objects of two shapes: for an empty
  \<^verbatim>\<open>components\<close> object only \<^verbatim>\<open>{status, classesNeeded, canSkip}\<close>, otherwise the full
  result.
\<close>

datatype subject_simulation =
    NoComponents status real real
  | Simulated simulation_result

definition calculateSubjectSimulation ::
  "calculator \<Rightarrow> (string \<times> component) list \<Rightarrow> real \<Rightarrow> subject_simulation" where
  "calculateSubjectSimulation this components threshold =
     (if length components = 0 then NoComponents Safe 0 0
      else
        let currentPercentage = calculateSubjectPercentage this components;
            status = getStatus currentPercentage threshold;
            (componentData, weakestComponent, weakestPercentage, totalClassesNeeded, minCanSkip) =
              subjectSimulationLoop this threshold components ([], None, 100, Finite 0, Infinity)
        in Simulated
             \<lparr>percentage = currentPercentage,
              status = status,
              dangerScore = calculateDangerScore currentPercentage threshold,
              componentData = componentData,
              weakestComponent = weakestComponent,
              weakestPercentage = weakestPercentage,
              totalClassesNeeded = Math_min totalClassesNeeded 300,
              canSkip = (if minCanSkip = Infinity then 0 else Math_min minCanSkip 100)\<rparr>)"

text \<open>Property reads on a simulation object; \<open>None\<close> is \<^verbatim>\<open>undefined\<close>.\<close>

fun sim_percentage :: "subject_simulation \<Rightarrow> real option" where
  "sim_percentage (NoComponents st needed skip) = None"
| "sim_percentage (Simulated r) = Some (simulation_result.percentage r)"

fun sim_status :: "subject_simulation \<Rightarrow> status" where
  "sim_status (NoComponents st needed skip) = st"
| "sim_status (Simulated r) = simulation_result.status r"

fun sim_dangerScore :: "subject_simulation \<Rightarrow> real option" where
  "sim_dangerScore (NoComponents st needed skip) = None"
| "sim_dangerScore (Simulated r) = Some (dangerScore r)"

fun sim_canSkip :: "subject_simulation \<Rightarrow> real" where
  "sim_canSkip (NoComponents st needed skip) = skip"
| "sim_canSkip (Simulated r) = simulation_result.canSkip r"

section \<open>Totals of a subject\<close>

text \<open>The totals loop of \<^verbatim>\<open>processAllSubjects\<close> over the components of one subject.\<close>

fun totalsLoop ::
  "calculator \<Rightarrow> (string \<times> component) list \<Rightarrow> real \<times> real \<times> real \<Rightarrow> real \<times> real \<times> real" where
  "totalsLoop this [] acc = acc"
| "totalsLoop this ((compType, c) # rest) (totalConducted, totalAttended, totalEffectiveAttended) =
     totalsLoop this rest
       (totalConducted + conducted c,
        totalAttended + attended c,
        totalEffectiveAttended + getEffectiveAttended this (attended c) (or_zero (tcbr c)))"

section \<open>Processed subjects\<close>

record subject =
  courseCode :: string
  courseName :: string
  components :: "(string \<times> component) list"

text \<open>
  A processed subject: the subject's own fields, the totals, and the fields of the simulation
  object, which the source spreads into it (\<^verbatim>\<open>...simulation\<close>).
\<close>

record processed = subject +
  totalConducted :: real
  totalAttended :: real
  totalEffectiveAttended :: real
  totalAbsent :: real
  simulation :: subject_simulation

section \<open>Aggregate statistics\<close>

text \<open>
  The loop carries \<^verbatim>\<open>totalPercentage\<close> (which becomes \<^verbatim>\<open>NaN\<close> once a subject without
  \<^verbatim>\<open>percentage\<close> is added), the three counters, \<^verbatim>\<open>mostAtRisk\<close> (\<open>None\<close> is \<^verbatim>\<open>null\<close>)
  and \<^verbatim>\<open>lowestPercentage\<close>. A comparison with \<^verbatim>\<open>undefined\<close> is false.
\<close>

fun aggregateLoop ::
  "processed list
   \<Rightarrow> real option \<times> nat \<times> nat \<times> nat \<times> processed option \<times> real
   \<Rightarrow> real option \<times> nat \<times> nat \<times> nat \<times> processed option \<times> real" where
  "aggregateLoop [] acc = acc"
| "aggregateLoop (s # rest)
     (totalPercentage, safeCount, borderlineCount, criticalCount, mostAtRisk, lowestPercentage) =
     (let totalPercentage1 = nan_plus totalPercentage (sim_percentage (simulation s));
          safeCount1 = (if sim_status (simulation s) = Safe then safeCount + 1 else safeCount);
          borderlineCount1 =
            (if sim_status (simulation s) = Borderline then borderlineCount + 1
             else borderlineCount);
          criticalCount1 =
            (if sim_status (simulation s) = Critical then criticalCount + 1
             else criticalCount);
          mostAtRisk1 =
            (case sim_percentage (simulation s) of
               None \<Rightarrow> mostAtRisk
             | Some p \<Rightarrow> if p < lowestPercentage then Some s else mostAtRisk);
          lowestPercentage1 =
            (case sim_percentage (simulation s) of
               None \<Rightarrow> lowestPercentage
             | Some p \<Rightarrow> if p < lowestPercentage then p else lowestPercentage)
      in aggregateLoop rest
           (totalPercentage1, safeCount1, borderlineCount1, criticalCount1, mostAtRisk1,
            lowestPercentage1))"

record aggregate_stats =
  totalSubjects :: nat
  averageAttendance :: "real option"
  safeCount :: nat
  borderlineCount :: nat
  criticalCount :: nat
  mostAtRisk :: "processed option"

definition calculateAggregateStats :: "processed list \<Rightarrow> real \<Rightarrow> aggregate_stats" where
  "calculateAggregateStats subjects threshold =
     (if length subjects = 0
      then \<lparr>totalSubjects = 0, averageAttendance = Some 0, safeCount = 0,
            borderlineCount = 0, criticalCount = 0, mostAtRisk = None\<rparr>
      else
        let (totalPercentage, safeCount, borderlineCount, criticalCount, mostAtRisk,
             lowestPercentage) = aggregateLoop subjects (Some 0, 0, 0, 0, None, 100)
        in \<lparr>totalSubjects = length subjects,
            averageAttendance =
              map_option (\<lambda>total. total / real (length subjects)) totalPercentage,
            safeCount = safeCount,
            borderlineCount = borderlineCount,
            criticalCount = criticalCount,
            mostAtRisk = mostAtRisk\<rparr>)"

section \<open>Sorting\<close>

text \<open>
  \<^verbatim>\<open>Array.prototype.sort\<close> is stable and treats a comparator result \<^verbatim>\<open>NaN\<close> as \<open>0\<close>. It is
  modelled as the stable insertion sort: an element is placed before the first element of the
  sorted rest that it does not have to follow. For a comparator that is not a consistent
  ordering the language leaves the resulting order to the implementation.
\<close>

fun notAfter :: "real option \<Rightarrow> bool" where
  "notAfter None = True"
| "notAfter (Some v) = (v \<le> 0)"

fun insertBy :: "('a \<Rightarrow> 'a \<Rightarrow> real option) \<Rightarrow> 'a \<Rightarrow> 'a list \<Rightarrow> 'a list" where
  "insertBy cmp x [] = [x]"
| "insertBy cmp x (y # ys) =
     (if notAfter (cmp x y) then x # y # ys else y # insertBy cmp x ys)"

fun Array_sort :: "('a \<Rightarrow> 'a \<Rightarrow> real option) \<Rightarrow> 'a list \<Rightarrow> 'a list" where
  "Array_sort cmp [] = []"
| "Array_sort cmp (x # xs) = insertBy cmp x (Array_sort cmp xs)"

text \<open>The three comparators of \<^verbatim>\<open>sortSubjects\<close>.\<close>

definition byDanger :: "processed \<Rightarrow> processed \<Rightarrow> real option" where
  "byDanger a b = nan_minus (sim_dangerScore (simulation b)) (sim_dangerScore (simulation a))"

text \<open>
  \<^verbatim>\<open>String.prototype.localeCompare\<close> depends on the host's locale; it is a parameter.
\<close>

definition byName :: "(string \<Rightarrow> string \<Rightarrow> real) \<Rightarrow> processed \<Rightarrow> processed \<Rightarrow> real option" where
  "byName localeCompare a b = Some (localeCompare (courseName a) (courseName b))"

definition byPercentage :: "processed \<Rightarrow> processed \<Rightarrow> real option" where
  "byPercentage a b = nan_minus (sim_percentage (simulation a)) (sim_percentage (simulation b))"

text \<open>
  Arrays are mutable objects, and \<^verbatim>\<open>sort\<close> works in place. The store is the list of all
  arrays allocated so far; an array reference is an index into it, and a new array gets the
  next index. \<^verbatim>\<open>sortSubjects\<close> takes the reference of its argument and returns the reference
  of its result together with the store after the call. A reference that was never
  allocated has no counterpart in the source; the model returns \<open>None\<close> for it.
\<close>

type_synonym store = "processed list list"

definition sortSubjects ::
  "(string \<Rightarrow> string \<Rightarrow> real) \<Rightarrow> store \<Rightarrow> nat \<Rightarrow> string \<Rightarrow> (nat \<times> store) option" where
  "sortSubjects localeCompare heap subjects sortBy =
     (if subjects < length heap
      then
        let sorted = length heap;
            heap1 = heap @ [heap ! subjects];
            cmp =
              (if sortBy = ''danger'' then byDanger
               else if sortBy = ''name'' then byName localeCompare
               else if sortBy = ''percentage'' then byPercentage
               else byDanger);
            heap2 = heap1[sorted := Array_sort cmp (heap1 ! sorted)]
        in Some (sorted, heap2)
      else None)"

section \<open>Batch processing\<close>

fun processLoop ::
  "calculator \<Rightarrow> real \<Rightarrow> (string \<times> subject) list \<Rightarrow> processed list \<Rightarrow> processed list" where
  "processLoop this threshold [] acc = acc"
| "processLoop this threshold ((subjectKey, s) # rest) acc =
     (let sim = calculateSubjectSimulation this (components s) threshold;
          (totalConducted, totalAttended, totalEffectiveAttended) =
            totalsLoop this (components s) (0, 0, 0)
      in processLoop this threshold rest
           (acc @
            [\<lparr>courseCode = courseCode s,
              courseName = courseName s,
              components = components s,
              totalConducted = totalConducted,
              totalAttended = totalAttended,
              totalEffectiveAttended = totalEffectiveAttended,
              totalAbsent = totalConducted - totalAttended,
              simulation = sim\<rparr>]))"

text \<open>
  \<^verbatim>\<open>rawData\<close> may be missing (\<open>None\<close>), and so may its \<^verbatim>\<open>subjects\<close> property; the
  \<^verbatim>\<open>subjects\<close> object is the list of its entries in the order of \<^verbatim>\<open>Object.keys\<close>.
\<close>

record raw_data =
  subjects :: "(string \<times> subject) list option"

definition processAllSubjects :: "calculator \<Rightarrow> raw_data option \<Rightarrow> real \<Rightarrow> processed list" where
  "processAllSubjects this rawData threshold =
     (case rawData of
        None \<Rightarrow> []
      | Some r \<Rightarrow>
          (case subjects r of
             None \<Rightarrow> []
           | Some entries \<Rightarrow> processLoop this threshold entries []))"

section \<open>Ranges of the derived values\<close>

text \<open>
  The conditions under which the values of the engine are read as sane: a percentage lies
  between 0 and 100, and no other derived quantity is negative (\<^verbatim>\<open>Infinity\<close> is not
  negative). \<open>validComponent\<close> is the condition that the extraction step enforces on a raw
  record.
\<close>

definition inRange :: "real \<Rightarrow> bool" where
  "inRange p \<longleftrightarrow> 0 \<le> p \<and> p \<le> 100"

fun nonNegative :: "number \<Rightarrow> bool" where
  "nonNegative (Finite x) = (0 \<le> x)"
| "nonNegative Infinity = True"

definition validComponent :: "component \<Rightarrow> bool" where
  "validComponent c \<longleftrightarrow>
     0 \<le> attended c \<and> attended c \<le> conducted c \<and> 0 \<le> tcbr c \<and> tcbr c \<le> conducted c"

definition missInRange :: "miss_simulation \<Rightarrow> bool" where
  "missInRange m \<longleftrightarrow>
     inRange (currentPercentage m) \<and> inRange (newPercentage m) \<and> 0 \<le> percentageDrop m"

definition componentDataInRange :: "component_data \<Rightarrow> bool" where
  "componentDataInRange d \<longleftrightarrow>
     inRange (component_data.percentage d)
     \<and> nonNegative (classesNeeded d)
     \<and> 0 \<le> component_data.canSkip d
     \<and> missInRange (nextClassSimulation d)
     \<and> 0 \<le> conducted d \<and> 0 \<le> attended d \<and> 0 \<le> effectiveAttended d \<and> 0 \<le> tcbr d"

fun simulationInRange :: "subject_simulation \<Rightarrow> bool" where
  "simulationInRange (NoComponents st needed skip) = (0 \<le> needed \<and> 0 \<le> skip)"
| "simulationInRange (Simulated r) =
     (inRange (simulation_result.percentage r)
      \<and> 0 \<le> dangerScore r
      \<and> (\<forall>(ty, d) \<in> set (componentData r). componentDataInRange d)
      \<and> inRange (weakestPercentage r)
      \<and> 0 \<le> totalClassesNeeded r
      \<and> 0 \<le> simulation_result.canSkip r)"

definition processedInRange :: "processed \<Rightarrow> bool" where
  "processedInRange p \<longleftrightarrow>
     0 \<le> totalConducted p \<and> 0 \<le> totalAttended p \<and> 0 \<le> totalEffectiveAttended p
     \<and> 0 \<le> totalAbsent p
     \<and> simulationInRange (simulation p)"

section \<open>Basic facts about percentages\<close>

lemma or_zero_id [simp]: "or_zero x = x"
  by (simp add: or_zero_def)

lemma percentage_bounds:
  "0 \<le> calculateComponentPercentage this a c k \<and> calculateComponentPercentage this a c k \<le> 100"
  by (simp add: calculateComponentPercentage_def Let_def)

lemma percentage_less_iff:
  assumes "t \<le> 100"
  shows "calculateComponentPercentage this a c k < t
           \<longleftrightarrow> 0 < c \<and> 0 < t \<and> 100 * getEffectiveAttended this a k < t * c"
proof (cases "0 < c")
  case False
  then show ?thesis
    using assms by (simp add: calculateComponentPercentage_def)
next
  case True
  define x where "x = getEffectiveAttended this a k / c * 100"
  have "calculateComponentPercentage this a c k =
          (if x < 0 then 0 else if 100 < x then 100 else x)"
    using True by (simp add: calculateComponentPercentage_def Let_def x_def)
  moreover have "x < t \<longleftrightarrow> 100 * getEffectiveAttended this a k < t * c"
    using True by (simp add: x_def divide_simps mult.commute)
  ultimately show ?thesis
    using assms True by auto
qed

lemma effective_nonneg: "0 \<le> a \<Longrightarrow> 0 \<le> k \<Longrightarrow> 0 \<le> getEffectiveAttended this a k"
  by (simp add: getEffectiveAttended_def)

lemma cap_at_100: "(if (v::real) > 100 then 100 else max 0 v) = min 100 (max 0 v)"
  by (simp add: min_def max_def)

section \<open>Danger score\<close>



section \<open>Classes that can be skipped\<close>



section \<open>Classes needed to reach the threshold\<close>




text \<open>
  Claim C5, as stated: for every input with a threshold of 100 or more,
  \<^verbatim>\<open>classesNeededToReachThreshold\<close> returns 0 when the effective attended count equals
  conducted and the sentinel otherwise. In the carry-forward mode, attended 8, conducted 10
  and carry-forward 5 give an effective attended count of 13, which differs from conducted,
  and the function returns 0, since the percentage is clamped to 100.
\<close>

theorem classesNeeded_threshold_100_counterexample:
  "getEffectiveAttended \<lparr>attendanceMode = ''TCBR_CORRECTED''\<rparr> 8 5 \<noteq> 10
   \<and> classesNeededToReachThreshold \<lparr>attendanceMode = ''TCBR_CORRECTED''\<rparr> 8 10 100 5 = Finite 0"
  by (simp add: classesNeededToReachThreshold_def calculateComponentPercentage_def
      getEffectiveAttended_def Let_def)

text \<open>
  Claim C5, amended. For all non-negative attended, conducted and carry-forward and every
  threshold of 100 or more, \<^verbatim>\<open>classesNeededToReachThreshold\<close> returns the sentinel
  \<^verbatim>\<open>Infinity\<close> when the effective attended count is below conducted, and 0 otherwise, that
  is when it equals or exceeds conducted.
\<close>

theorem classesNeeded_threshold_100:
  assumes "100 \<le> t" and "0 \<le> a" and "0 \<le> c" and "0 \<le> k"
  shows "classesNeededToReachThreshold this a c t k =
           (if getEffectiveAttended this a k < c then Infinity else Finite 0)"
proof (cases "t \<le> calculateComponentPercentage this a c k")
  case False
  with assms(1) show ?thesis
    by (simp add: classesNeededToReachThreshold_def Let_def)
next
  case True
  moreover have "calculateComponentPercentage this a c k \<le> 100"
    using percentage_bounds by simp
  ultimately have "\<not> calculateComponentPercentage this a c k < 100"
    using assms(1) by simp
  then have "\<not> (0 < c \<and> getEffectiveAttended this a k < c)"
    using percentage_less_iff [of 100 this a c k] by simp
  moreover have "0 \<le> getEffectiveAttended this a k"
    using assms by (simp add: effective_nonneg)
  ultimately have "\<not> getEffectiveAttended this a k < c"
    using assms(3) by auto
  with True show ?thesis
    by (simp add: classesNeededToReachThreshold_def Let_def)
qed

theorem classesNeeded_threshold_100_witness:
  "(100::real) \<le> 100 \<and> (0::real) \<le> 8 \<and> (0::real) \<le> 10 \<and> (0::real) \<le> 0
   \<and> classesNeededToReachThreshold \<lparr>attendanceMode = ''ERP''\<rparr> 8 10 100 0 = Infinity
   \<and> classesNeededToReachThreshold \<lparr>attendanceMode = ''ERP''\<rparr> 10 10 100 0 = Finite 0"
  using classesNeeded_threshold_100 [where this = "\<lparr>attendanceMode = ''ERP''\<rparr>"
      and a = 8 and c = 10 and k = 0 and t = 100]
    classesNeeded_threshold_100 [where this = "\<lparr>attendanceMode = ''ERP''\<rparr>"
      and a = 10 and c = 10 and k = 0 and t = 100]
  by (simp add: getEffectiveAttended_def)

section \<open>Subjects without data\<close>

lemma subjectPercentageLoop_no_data:
  "\<forall>(ty, c) \<in> set comps. conducted c \<le> 0 \<Longrightarrow> subjectPercentageLoop this comps acc = acc"
  by (induction this comps acc rule: subjectPercentageLoop.induct) auto

text \<open>
  Claim C1, as stated: for every subject in which no component has conducted above 0,
  including a subject whose component mapping is empty, the subject percentage is 100. For
  the empty mapping \<^verbatim>\<open>calculateSubjectPercentage\<close> returns 0 through its first guard, and
  the object returned by \<^verbatim>\<open>calculateSubjectSimulation\<close> has no percentage.
\<close>

theorem subject_percentage_no_data_counterexample:
  "calculateSubjectPercentage \<lparr>attendanceMode = ''ERP''\<rparr> [] \<noteq> 100
   \<and> sim_percentage (calculateSubjectSimulation \<lparr>attendanceMode = ''ERP''\<rparr> [] 75) \<noteq> Some 100"
  by (simp add: calculateSubjectPercentage_def calculateSubjectSimulation_def)

text \<open>
  Claim C1, amended. For every subject with a non-empty component mapping in which no
  component has conducted above 0, \<^verbatim>\<open>calculateSubjectPercentage\<close> returns 100 and the
  subject's result echoes 100. For the empty component mapping
  \<^verbatim>\<open>calculateSubjectPercentage\<close> returns 0 and the subject's result has no percentage.
\<close>

theorem subject_percentage_no_data:
  "(comps \<noteq> [] \<and> (\<forall>(ty, c) \<in> set comps. conducted c \<le> 0) \<longrightarrow>
      calculateSubjectPercentage this comps = 100
      \<and> sim_percentage (calculateSubjectSimulation this comps t) = Some 100)
   \<and> calculateSubjectPercentage this [] = 0
   \<and> sim_percentage (calculateSubjectSimulation this [] t) = None"
proof (intro conjI impI)
  assume a: "comps \<noteq> [] \<and> (\<forall>(ty, c) \<in> set comps. conducted c \<le> 0)"
  then show pct: "calculateSubjectPercentage this comps = 100"
    by (simp add: calculateSubjectPercentage_def subjectPercentageLoop_no_data)
  from a show "sim_percentage (calculateSubjectSimulation this comps t) = Some 100"
    by (simp add: calculateSubjectSimulation_def pct Let_def split: prod.splits)
next
  show "calculateSubjectPercentage this [] = 0"
    by (simp add: calculateSubjectPercentage_def)
next
  show "sim_percentage (calculateSubjectSimulation this [] t) = None"
    by (simp add: calculateSubjectSimulation_def)
qed

theorem subject_percentage_no_data_witness:
  "calculateSubjectPercentage \<lparr>attendanceMode = ''ERP''\<rparr>
        [(''L'', \<lparr>conducted = 0, attended = 0, tcbr = 0\<rparr>)] = 100
   \<and> sim_percentage (calculateSubjectSimulation \<lparr>attendanceMode = ''ERP''\<rparr>
        [(''L'', \<lparr>conducted = 0, attended = 0, tcbr = 0\<rparr>)] 75) = Some 100"
  using subject_percentage_no_data [where this = "\<lparr>attendanceMode = ''ERP''\<rparr>"
      and comps = "[(''L'', \<lparr>conducted = 0, attended = 0, tcbr = 0\<rparr>)]" and t = 75]
  by simp

section \<open>Skip capacity of a subject\<close>

lemma canSkip_bounds: "0 \<le> classesCanSkip this a c t k \<and> classesCanSkip this a c t k \<le> 100"
  unfolding classesCanSkip_def Let_def cap_at_100 by simp

lemma canSkip_nonpositive_threshold:
  assumes "t \<le> 0"
  shows "classesCanSkip this a c t k = 100"
proof -
  have "0 \<le> calculateComponentPercentage this a c k"
    using percentage_bounds by simp
  with assms show ?thesis
    by (simp add: classesCanSkip_def Let_def)
qed

lemma simulationLoop_minCanSkip:
  "snd (snd (snd (snd (subjectSimulationLoop this t comps (cd, wc, wp, tot, Finite m))))) =
     Finite (fold min (map (\<lambda>(ty, c). classesCanSkip this (attended c) (conducted c) t (tcbr c)) comps) m)"
proof (induction comps arbitrary: cd wc wp tot m)
  case Nil
  then show ?case by simp
next
  case (Cons x comps)
  obtain ty c where x: "x = (ty, c)" by (cases x)
  show ?case
    unfolding x by (simp add: Let_def Cons.IH min_def)
qed

lemma simulationLoop_minCanSkip_start:
  assumes "comps \<noteq> []"
  shows "snd (snd (snd (snd (subjectSimulationLoop this t comps (cd, wc, wp, tot, Infinity))))) =
     Finite (Min ((\<lambda>(ty, c). classesCanSkip this (attended c) (conducted c) t (tcbr c)) ` set comps))"
proof -
  obtain ty c rest where comps: "comps = (ty, c) # rest"
    using assms by (cases comps) auto
  let ?skip = "\<lambda>(ty, c). classesCanSkip this (attended c) (conducted c) t (tcbr c)"
  have "Min (set (?skip (ty, c) # map ?skip rest)) = fold min (map ?skip rest) (?skip (ty, c))"
    by (rule Min.set_eq_fold)
  then have "fold min (map ?skip rest) (classesCanSkip this (attended c) (conducted c) t (tcbr c))
      = Min (?skip ` set comps)"
    by (simp add: comps)
  then show ?thesis
    by (simp add: comps Let_def simulationLoop_minCanSkip)
qed

text \<open>
  Claim C2, as stated: the subject-level \<^verbatim>\<open>canSkip\<close> is the minimum positive per-component
  skip capacity, capped at 100, and it is 0 when every component's skip value is the
  unbounded case. With threshold 0 the only component of the first subject below is in the
  unbounded case (its skip value is the sentinel 100), and the subject-level value is 100,
  not 0. In the second subject the skip capacities are 3 and 0; the only positive one is 3,
  and the subject-level value is 0.
\<close>

theorem subject_canSkip_minimum_counterexample:
  "classesCanSkip \<lparr>attendanceMode = ''ERP''\<rparr> 8 10 0 0 = 100
   \<and> sim_canSkip (calculateSubjectSimulation \<lparr>attendanceMode = ''ERP''\<rparr>
        [(''L'', \<lparr>conducted = 10, attended = 8, tcbr = 0\<rparr>)] 0) = 100
   \<and> classesCanSkip \<lparr>attendanceMode = ''ERP''\<rparr> 10 10 75 0 = 3
   \<and> classesCanSkip \<lparr>attendanceMode = ''ERP''\<rparr> 5 10 75 0 = 0
   \<and> sim_canSkip (calculateSubjectSimulation \<lparr>attendanceMode = ''ERP''\<rparr>
        [(''L'', \<lparr>conducted = 10, attended = 10, tcbr = 0\<rparr>),
         (''T'', \<lparr>conducted = 10, attended = 5, tcbr = 0\<rparr>)] 75) = 0"
  by (simp add: calculateSubjectSimulation_def calculateSubjectPercentage_def
      classesCanSkip_def classesNeededToReachThreshold_def simulateMissNextClass_def
      calculateComponentPercentage_def getEffectiveAttended_def getStatus_def
      calculateDangerScore_def Let_def)

text \<open>
  Claim C2, amended. For every subject with a non-empty component mapping and every
  threshold, the subject-level \<^verbatim>\<open>canSkip\<close> equals the minimum of the skip capacities of all
  its components, zero capacities included; it lies between 0 and 100, so the cap at 100
  and the default 0 for an infinite minimum never apply; and for a threshold of at most 0 it
  is 100.
\<close>

theorem subject_canSkip_minimum:
  assumes "comps \<noteq> []"
  shows "sim_canSkip (calculateSubjectSimulation this comps t) =
           Min ((\<lambda>(ty, c). classesCanSkip this (attended c) (conducted c) t (tcbr c)) ` set comps)
         \<and> 0 \<le> sim_canSkip (calculateSubjectSimulation this comps t)
         \<and> sim_canSkip (calculateSubjectSimulation this comps t) \<le> 100
         \<and> (t \<le> 0 \<longrightarrow> sim_canSkip (calculateSubjectSimulation this comps t) = 100)"
proof -
  let ?skip = "\<lambda>(ty, c). classesCanSkip this (attended c) (conducted c) t (tcbr c)"
  let ?m = "Min (?skip ` set comps)"
  obtain cd wc wp tot mn where
    loop: "subjectSimulationLoop this t comps ([], None, 100, Finite 0, Infinity) = (cd, wc, wp, tot, mn)"
    by (metis prod_cases5)
  have "mn = Finite ?m"
    using simulationLoop_minCanSkip_start [OF assms, of this t "[]" None 100 "Finite 0"]
    by (simp add: loop)
  moreover have mem: "?m \<in> ?skip ` set comps"
    using assms by (intro Min_in) auto
  then have bounds: "0 \<le> ?m \<and> ?m \<le> 100"
    using canSkip_bounds by auto
  ultimately have eq: "sim_canSkip (calculateSubjectSimulation this comps t) = ?m"
    using assms by (simp add: calculateSubjectSimulation_def Let_def loop)
  have "?m = 100" if "t \<le> 0"
  proof -
    have "?skip x = 100" for x
      using that by (cases x) (simp add: canSkip_nonpositive_threshold)
    with mem show ?thesis by auto
  qed
  with eq bounds show ?thesis by simp
qed

theorem subject_canSkip_minimum_witness:
  "[(''L'', \<lparr>conducted = 10, attended = 10, tcbr = 0\<rparr>),
    (''T'', \<lparr>conducted = 50, attended = 45, tcbr = 0\<rparr>)] \<noteq> []
   \<and> sim_canSkip (calculateSubjectSimulation \<lparr>attendanceMode = ''ERP''\<rparr>
        [(''L'', \<lparr>conducted = 10, attended = 10, tcbr = 0\<rparr>),
         (''T'', \<lparr>conducted = 50, attended = 45, tcbr = 0\<rparr>)] 75) = 3"
  using subject_canSkip_minimum [where this = "\<lparr>attendanceMode = ''ERP''\<rparr>" and t = 75
      and comps = "[(''L'', \<lparr>conducted = 10, attended = 10, tcbr = 0\<rparr>),
         (''T'', \<lparr>conducted = 50, attended = 45, tcbr = 0\<rparr>)]"]
  by (simp add: classesCanSkip_def calculateComponentPercentage_def getEffectiveAttended_def
      Let_def)

section \<open>The subject most at risk\<close>

text \<open>The definitions that evaluating the engine on a concrete input unfolds.\<close>

lemmas engine_defs =
  processAllSubjects_def calculateSubjectSimulation_def calculateSubjectPercentage_def
  classesCanSkip_def classesNeededToReachThreshold_def simulateMissNextClass_def
  calculateComponentPercentage_def getEffectiveAttended_def getStatus_def
  calculateDangerScore_def calculateAggregateStats_def Let_def

lemma aggregateLoop_mostAtRisk:
  assumes "aggregateLoop xs (tp, a, b, c, mar, low) = (tp', a', b', c', mar', low')"
  shows "low' \<le> low
       \<and> (\<forall>s \<in> set xs. \<forall>p. sim_percentage (simulation s) = Some p \<longrightarrow> low' \<le> p)
       \<and> (low' < low \<longrightarrow> (\<exists>s \<in> set xs. sim_percentage (simulation s) = Some low'))
       \<and> mar' = (if low' < low
                  then find (\<lambda>s. sim_percentage (simulation s) = Some low') xs
                  else mar)"
  using assms
proof (induction xs arbitrary: tp a b c mar low)
  case Nil
  then show ?case by simp
next
  case (Cons x xs)
  show ?case
  proof (cases "sim_percentage (simulation x)")
    case None
    with Cons.prems have
      "aggregateLoop xs (None,
         (if sim_status (simulation x) = Safe then a + 1 else a),
         (if sim_status (simulation x) = Borderline then b + 1 else b),
         (if sim_status (simulation x) = Critical then c + 1 else c),
         mar, low) = (tp', a', b', c', mar', low')"
      by (simp add: Let_def)
    from Cons.IH [OF this] None show ?thesis by auto
  next
    case (Some p)
    show ?thesis
    proof (cases "p < low")
      case True
      with Some Cons.prems have
        "aggregateLoop xs (nan_plus tp (Some p),
           (if sim_status (simulation x) = Safe then a + 1 else a),
           (if sim_status (simulation x) = Borderline then b + 1 else b),
           (if sim_status (simulation x) = Critical then c + 1 else c),
           Some x, p) = (tp', a', b', c', mar', low')"
        by (simp add: Let_def)
      from Cons.IH [OF this] Some True show ?thesis by auto
    next
      case False
      with Some Cons.prems have
        "aggregateLoop xs (nan_plus tp (Some p),
           (if sim_status (simulation x) = Safe then a + 1 else a),
           (if sim_status (simulation x) = Borderline then b + 1 else b),
           (if sim_status (simulation x) = Critical then c + 1 else c),
           mar, low) = (tp', a', b', c', mar', low')"
        by (simp add: Let_def)
      from Cons.IH [OF this] Some False show ?thesis by auto
    qed
  qed
qed

text \<open>
  Claim C3, as stated: for every non-empty list of processed subjects \<^verbatim>\<open>mostAtRisk\<close> is the
  subject with the lowest percentage, and it is \<^verbatim>\<open>null\<close> only for the empty list. The
  search starts from \<^verbatim>\<open>lowestPercentage = 100\<close> and compares strictly, so for the one
  processed subject below, whose percentage is 100, \<^verbatim>\<open>mostAtRisk\<close> stays \<^verbatim>\<open>null\<close>.
\<close>

theorem mostAtRisk_first_lowest_counterexample:
  "processAllSubjects \<lparr>attendanceMode = ''ERP''\<rparr>
     (Some \<lparr>subjects = Some [(''CS101'',
        \<lparr>courseCode = ''CS101'', courseName = ''Algorithms'',
         components = [(''L'', \<lparr>conducted = 10, attended = 10, tcbr = 0\<rparr>)]\<rparr>)]\<rparr>) 75 \<noteq> []
   \<and> mostAtRisk (calculateAggregateStats
        (processAllSubjects \<lparr>attendanceMode = ''ERP''\<rparr>
          (Some \<lparr>subjects = Some [(''CS101'',
             \<lparr>courseCode = ''CS101'', courseName = ''Algorithms'',
              components = [(''L'', \<lparr>conducted = 10, attended = 10, tcbr = 0\<rparr>)]\<rparr>)]\<rparr>) 75)
        75) = None"
  by (simp add: engine_defs)

text \<open>
  Claim C3, amended. For every list of processed subjects, \<^verbatim>\<open>mostAtRisk\<close> is the first
  subject in input order whose percentage is below 100 and is the lowest percentage of the
  list; \<^verbatim>\<open>mostAtRisk\<close> is \<^verbatim>\<open>null\<close> exactly when no subject of the list has a percentage
  below 100, which includes the empty list.
\<close>

theorem mostAtRisk_first_lowest:
  "mostAtRisk (calculateAggregateStats subs t) =
     find (\<lambda>s. \<exists>p. sim_percentage (simulation s) = Some p \<and> p < 100
               \<and> (\<forall>s' \<in> set subs. \<forall>p'. sim_percentage (simulation s') = Some p' \<longrightarrow> p \<le> p'))
       subs
   \<and> (mostAtRisk (calculateAggregateStats subs t) = None \<longleftrightarrow>
        (\<forall>s \<in> set subs. \<forall>p. sim_percentage (simulation s) = Some p \<longrightarrow> 100 \<le> p))"
proof -
  let ?Q = "\<lambda>s. \<exists>p. sim_percentage (simulation s) = Some p \<and> p < 100
               \<and> (\<forall>s' \<in> set subs. \<forall>p'. sim_percentage (simulation s') = Some p' \<longrightarrow> p \<le> p')"
  obtain tp' a' b' c' mar' low' where
    loop: "aggregateLoop subs (Some 0, 0, 0, 0, None, 100) = (tp', a', b', c', mar', low')"
    by (metis prod_cases6)
  note inv = aggregateLoop_mostAtRisk [OF loop]
  have res: "mostAtRisk (calculateAggregateStats subs t) = mar'"
  proof (cases subs)
    case Nil
    with loop show ?thesis by (simp add: calculateAggregateStats_def)
  next
    case (Cons x xs)
    with loop show ?thesis by (simp add: calculateAggregateStats_def Let_def)
  qed
  have first: "mar' = find ?Q subs"
  proof (cases "low' < 100")
    case True
    then have "mar' = find (\<lambda>s. sim_percentage (simulation s) = Some low') subs"
      using inv by simp
    also have "\<dots> = find ?Q subs"
    proof (rule find_cong [OF refl])
      fix s assume "s \<in> set subs"
      show "(sim_percentage (simulation s) = Some low') = ?Q s"
      proof
        assume "sim_percentage (simulation s) = Some low'"
        then show "?Q s" using inv True by auto
      next
        assume "?Q s"
        then obtain p where p: "sim_percentage (simulation s) = Some p"
          and min: "\<forall>s' \<in> set subs. \<forall>p'. sim_percentage (simulation s') = Some p' \<longrightarrow> p \<le> p'"
          by blast
        from inv True obtain s' where "s' \<in> set subs" "sim_percentage (simulation s') = Some low'"
          by blast
        with min have "p \<le> low'" by blast
        moreover have "low' \<le> p" using inv \<open>s \<in> set subs\<close> p by blast
        ultimately show "sim_percentage (simulation s) = Some low'" using p by simp
      qed
    qed
    finally show ?thesis .
  next
    case False
    with inv have low: "low' = 100" and "mar' = None" by auto
    moreover have "find ?Q subs = None"
      unfolding find_None_iff using inv low by fastforce
    ultimately show ?thesis by simp
  qed
  have "find ?Q subs = None \<longleftrightarrow>
        (\<forall>s \<in> set subs. \<forall>p. sim_percentage (simulation s) = Some p \<longrightarrow> 100 \<le> p)"
  proof
    assume "find ?Q subs = None"
    with first have "mar' = None" by simp
    show "\<forall>s \<in> set subs. \<forall>p. sim_percentage (simulation s) = Some p \<longrightarrow> 100 \<le> p"
    proof (cases "low' < 100")
      case True
      then obtain s where "s \<in> set subs" "sim_percentage (simulation s) = Some low'"
        using inv by blast
      then have "find (\<lambda>s. sim_percentage (simulation s) = Some low') subs \<noteq> None"
        by (auto simp add: find_None_iff)
      with inv True \<open>mar' = None\<close> show ?thesis by simp
    next
      case False
      with inv show ?thesis by fastforce
    qed
  next
    assume "\<forall>s \<in> set subs. \<forall>p. sim_percentage (simulation s) = Some p \<longrightarrow> 100 \<le> p"
    then show "find ?Q subs = None"
      unfolding find_None_iff by fastforce
  qed
  with res first show ?thesis by simp
qed

theorem mostAtRisk_first_lowest_witness:
  "mostAtRisk (calculateAggregateStats
     (processAllSubjects \<lparr>attendanceMode = ''ERP''\<rparr>
       (Some \<lparr>subjects = Some
          [(''A'', \<lparr>courseCode = ''A'', courseName = ''Algebra'',
              components = [(''L'', \<lparr>conducted = 10, attended = 9, tcbr = 0\<rparr>)]\<rparr>),
           (''B'', \<lparr>courseCode = ''B'', courseName = ''Biology'',
              components = [(''L'', \<lparr>conducted = 10, attended = 6, tcbr = 0\<rparr>)]\<rparr>),
           (''C'', \<lparr>courseCode = ''C'', courseName = ''Chemistry'',
              components = [(''L'', \<lparr>conducted = 5, attended = 3, tcbr = 0\<rparr>)]\<rparr>)]\<rparr>) 75) 75)
   = Some (processAllSubjects \<lparr>attendanceMode = ''ERP''\<rparr>
       (Some \<lparr>subjects = Some
          [(''A'', \<lparr>courseCode = ''A'', courseName = ''Algebra'',
              components = [(''L'', \<lparr>conducted = 10, attended = 9, tcbr = 0\<rparr>)]\<rparr>),
           (''B'', \<lparr>courseCode = ''B'', courseName = ''Biology'',
              components = [(''L'', \<lparr>conducted = 10, attended = 6, tcbr = 0\<rparr>)]\<rparr>),
           (''C'', \<lparr>courseCode = ''C'', courseName = ''Chemistry'',
              components = [(''L'', \<lparr>conducted = 5, attended = 3, tcbr = 0\<rparr>)]\<rparr>)]\<rparr>) 75 ! 1)"
  using mostAtRisk_first_lowest [where t = 75 and subs = "processAllSubjects \<lparr>attendanceMode = ''ERP''\<rparr>
       (Some \<lparr>subjects = Some
          [(''A'', \<lparr>courseCode = ''A'', courseName = ''Algebra'',
              components = [(''L'', \<lparr>conducted = 10, attended = 9, tcbr = 0\<rparr>)]\<rparr>),
           (''B'', \<lparr>courseCode = ''B'', courseName = ''Biology'',
              components = [(''L'', \<lparr>conducted = 10, attended = 6, tcbr = 0\<rparr>)]\<rparr>),
           (''C'', \<lparr>courseCode = ''C'', courseName = ''Chemistry'',
              components = [(''L'', \<lparr>conducted = 5, attended = 3, tcbr = 0\<rparr>)]\<rparr>)]\<rparr>) 75"]
  by (simp add: processAllSubjects_def calculateSubjectSimulation_def calculateSubjectPercentage_def
  classesCanSkip_def classesNeededToReachThreshold_def simulateMissNextClass_def
  calculateComponentPercentage_def getEffectiveAttended_def getStatus_def
  calculateDangerScore_def Let_def)

section \<open>The two accounting modes\<close>

text \<open>
  With a carry-forward of 0 the effective attended count is the attended count in every
  mode, so each function that reads the mode computes the same result for any two states of
  the calculator. \<^verbatim>\<open>getStatus\<close>, \<^verbatim>\<open>calculateDangerScore\<close>, \<^verbatim>\<open>sortSubjects\<close> and
  \<^verbatim>\<open>calculateAggregateStats\<close> do not read the mode at all.
\<close>

lemma effective_no_carry: "getEffectiveAttended this a 0 = a"
  by (simp add: getEffectiveAttended_def)

lemma percentage_no_carry:
  "calculateComponentPercentage this a c 0 = calculateComponentPercentage this' a c 0"
  by (simp add: calculateComponentPercentage_def effective_no_carry)

lemma needed_no_carry:
  "classesNeededToReachThreshold this a c t 0 = classesNeededToReachThreshold this' a c t 0"
  unfolding classesNeededToReachThreshold_def effective_no_carry
    percentage_no_carry [of this a c this'] ..

lemma canSkip_no_carry:
  "classesCanSkip this a c t 0 = classesCanSkip this' a c t 0"
  unfolding classesCanSkip_def effective_no_carry percentage_no_carry [of this a c this'] ..

lemma miss_no_carry:
  "simulateMissNextClass this a c t 0 = simulateMissNextClass this' a c t 0"
  unfolding simulateMissNextClass_def percentage_no_carry [of this a _ this'] ..

lemma subjectPercentageLoop_no_carry:
  "\<forall>(ty, c) \<in> set comps. tcbr c = 0 \<Longrightarrow>
     subjectPercentageLoop this comps acc = subjectPercentageLoop this' comps acc"
proof (induction this comps acc rule: subjectPercentageLoop.induct)
  case (1 this acc)
  then show ?case by simp
next
  case (2 this type c rest totalPercentage validComponents)
  then show ?case
    by (simp add: percentage_no_carry [of this _ _ this'])
qed

lemma subjectPercentage_no_carry:
  "\<forall>(ty, c) \<in> set comps. tcbr c = 0 \<Longrightarrow>
     calculateSubjectPercentage this comps = calculateSubjectPercentage this' comps"
  by (simp add: calculateSubjectPercentage_def subjectPercentageLoop_no_carry [of comps this _ this'])

lemma subjectSimulationLoop_no_carry:
  "\<forall>(ty, c) \<in> set comps. tcbr c = 0 \<Longrightarrow>
     subjectSimulationLoop this t comps acc = subjectSimulationLoop this' t comps acc"
proof (induction comps arbitrary: acc)
  case Nil
  then show ?case by simp
next
  case (Cons x rest)
  obtain ty c where x: "x = (ty, c)" by (cases x)
  obtain cd wc wp tot mn where acc: "acc = (cd, wc, wp, tot, mn)" by (cases acc)
  from Cons.prems have c: "tcbr c = 0" and rest: "\<forall>(ty, c) \<in> set rest. tcbr c = 0"
    by (auto simp add: x)
  note IH = Cons.IH [OF rest]
  show ?case
    unfolding x acc
    by (simp add: Let_def c effective_no_carry IH
        percentage_no_carry [of this _ _ this'] needed_no_carry [of this _ _ _ this']
        canSkip_no_carry [of this _ _ _ this'] miss_no_carry [of this _ _ _ this'])
qed

lemma subjectSimulation_no_carry:
  "\<forall>(ty, c) \<in> set comps. tcbr c = 0 \<Longrightarrow>
     calculateSubjectSimulation this comps t = calculateSubjectSimulation this' comps t"
  by (simp add: calculateSubjectSimulation_def
      subjectPercentage_no_carry [of comps this this']
      subjectSimulationLoop_no_carry [of comps this t _ this'])

lemma totalsLoop_no_carry:
  "\<forall>(ty, c) \<in> set comps. tcbr c = 0 \<Longrightarrow>
     totalsLoop this comps acc = totalsLoop this' comps acc"
proof (induction comps arbitrary: acc)
  case Nil
  then show ?case by simp
next
  case (Cons x rest)
  obtain ty c where x: "x = (ty, c)" by (cases x)
  obtain tc ta te where acc: "acc = (tc, ta, te)" by (cases acc)
  from Cons.prems have c: "tcbr c = 0" and rest: "\<forall>(ty, c) \<in> set rest. tcbr c = 0"
    by (auto simp add: x)
  show ?case
    unfolding x acc by (simp add: c effective_no_carry Cons.IH [OF rest])
qed

lemma processLoop_no_carry:
  "\<forall>(key, s) \<in> set entries. \<forall>(ty, c) \<in> set (components s). tcbr c = 0 \<Longrightarrow>
     processLoop this t entries acc = processLoop this' t entries acc"
proof (induction entries arbitrary: acc)
  case Nil
  then show ?case by simp
next
  case (Cons x rest)
  obtain key s where x: "x = (key, s)" by (cases x)
  from Cons.prems have s: "\<forall>(ty, c) \<in> set (components s). tcbr c = 0"
    and rest: "\<forall>(key, s) \<in> set rest. \<forall>(ty, c) \<in> set (components s). tcbr c = 0"
    by (auto simp add: x)
  show ?case
    unfolding x
    by (simp add: Cons.IH [OF rest] subjectSimulation_no_carry [OF s, of this t this']
        totalsLoop_no_carry [OF s, of this _ this'])
qed

text \<open>With a carry-forward other than 0 the two modes do differ.\<close>

lemma modes_differ_with_carry_forward:
  "calculateComponentPercentage \<lparr>attendanceMode = ''ERP''\<rparr> 5 10 2 = 50
   \<and> calculateComponentPercentage \<lparr>attendanceMode = ''TCBR_CORRECTED''\<rparr> 5 10 2 = 70"
  by (simp add: calculateComponentPercentage_def getEffectiveAttended_def or_zero_def)

text \<open>
  Claim C9. For all inputs in which every carry-forward value is 0, each calculation
  function of the engine returns the same result under the standard mode and under the
  carry-forward-corrected mode; it does so for any two values of the mode flag.
\<close>

theorem modes_agree_without_carry_forward:
  assumes "\<forall>(ty, c) \<in> set comps. tcbr c = 0"
    and "\<forall>(key, s) \<in> set entries. \<forall>(ty, c) \<in> set (components s). tcbr c = 0"
  shows "getEffectiveAttended this a 0 = getEffectiveAttended this' a 0
    \<and> calculateComponentPercentage this a c 0 = calculateComponentPercentage this' a c 0
    \<and> classesNeededToReachThreshold this a c t 0 = classesNeededToReachThreshold this' a c t 0
    \<and> classesCanSkip this a c t 0 = classesCanSkip this' a c t 0
    \<and> simulateMissNextClass this a c t 0 = simulateMissNextClass this' a c t 0
    \<and> calculateSubjectPercentage this comps = calculateSubjectPercentage this' comps
    \<and> calculateSubjectSimulation this comps t = calculateSubjectSimulation this' comps t
    \<and> processAllSubjects this (Some \<lparr>subjects = Some entries\<rparr>) t
        = processAllSubjects this' (Some \<lparr>subjects = Some entries\<rparr>) t
    \<and> processAllSubjects this None t = processAllSubjects this' None t
    \<and> processAllSubjects this (Some \<lparr>subjects = None\<rparr>) t
        = processAllSubjects this' (Some \<lparr>subjects = None\<rparr>) t"
  using assms
  by (simp add: effective_no_carry percentage_no_carry [of this a c this']
      needed_no_carry [of this a c t this'] canSkip_no_carry [of this a c t this']
      miss_no_carry [of this a c t this'] subjectPercentage_no_carry [of comps this this']
      subjectSimulation_no_carry [of comps this t this'] processAllSubjects_def
      processLoop_no_carry [of entries this t _ this'])

theorem modes_agree_without_carry_forward_witness:
  "classesCanSkip \<lparr>attendanceMode = ''ERP''\<rparr> 8 10 75 0
       = classesCanSkip \<lparr>attendanceMode = ''TCBR_CORRECTED''\<rparr> 8 10 75 0
   \<and> calculateSubjectSimulation \<lparr>attendanceMode = ''ERP''\<rparr>
         [(''L'', \<lparr>conducted = 10, attended = 8, tcbr = 0\<rparr>)] 75
       = calculateSubjectSimulation \<lparr>attendanceMode = ''TCBR_CORRECTED''\<rparr>
         [(''L'', \<lparr>conducted = 10, attended = 8, tcbr = 0\<rparr>)] 75
   \<and> processAllSubjects \<lparr>attendanceMode = ''ERP''\<rparr>
         (Some \<lparr>subjects = Some [(''A'', \<lparr>courseCode = ''A'', courseName = ''Algebra'',
            components = [(''L'', \<lparr>conducted = 10, attended = 8, tcbr = 0\<rparr>)]\<rparr>)]\<rparr>) 75
       = processAllSubjects \<lparr>attendanceMode = ''TCBR_CORRECTED''\<rparr>
         (Some \<lparr>subjects = Some [(''A'', \<lparr>courseCode = ''A'', courseName = ''Algebra'',
            components = [(''L'', \<lparr>conducted = 10, attended = 8, tcbr = 0\<rparr>)]\<rparr>)]\<rparr>) 75"
  using modes_agree_without_carry_forward
    [where this = "\<lparr>attendanceMode = ''ERP''\<rparr>"
       and this' = "\<lparr>attendanceMode = ''TCBR_CORRECTED''\<rparr>"
       and a = 8 and c = 10 and t = 75
       and comps = "[(''L'', \<lparr>conducted = 10, attended = 8, tcbr = 0\<rparr>)]"
       and entries = "[(''A'', \<lparr>courseCode = ''A'', courseName = ''Algebra'',
            components = [(''L'', \<lparr>conducted = 10, attended = 8, tcbr = 0\<rparr>)]\<rparr>)]"]
  by simp

section \<open>Sorting leaves its argument alone\<close>

lemma length_insertBy: "length (insertBy cmp x xs) = Suc (length xs)"
  by (induction xs) simp_all

lemma set_insertBy: "set (insertBy cmp x xs) = insert x (set xs)"
  by (induction xs) auto

lemma length_Array_sort: "length (Array_sort cmp xs) = length xs"
  by (induction xs) (simp_all add: length_insertBy)

lemma set_Array_sort: "set (Array_sort cmp xs) = set xs"
  by (induction xs) (simp_all add: set_insertBy)

text \<open>Sorting two processed subjects by percentage: the copy is reordered, the argument is not.\<close>

lemma sortSubjects_by_percentage_example:
  "map_option (\<lambda>(r, h'). (map courseCode (h' ! 0), map courseCode (h' ! r)))
     (sortSubjects (\<lambda>x y. 0)
        [processAllSubjects \<lparr>attendanceMode = ''ERP''\<rparr>
           (Some \<lparr>subjects = Some
            [(''A'', \<lparr>courseCode = ''A'', courseName = ''Algebra'',
                components = [(''L'', \<lparr>conducted = 10, attended = 9, tcbr = 0\<rparr>)]\<rparr>),
             (''B'', \<lparr>courseCode = ''B'', courseName = ''Biology'',
                components = [(''L'', \<lparr>conducted = 10, attended = 6, tcbr = 0\<rparr>)]\<rparr>)]\<rparr>) 75]
        0 ''percentage'')
   = Some ([''A'', ''B''], [''B'', ''A''])"
  by (simp add: sortSubjects_def byPercentage_def engine_defs)

text \<open>
  Claim C10. For every array of processed subjects and every sort key, known or unknown,
  \<^verbatim>\<open>sortSubjects\<close> returns a freshly constructed array: its reference was not allocated
  before the call and differs from the argument's. The argument array, and every other array
  of the store, holds after the call the same elements in the same order as before; the new
  array has the argument's elements.
\<close>

theorem sortSubjects_fresh_array:
  assumes "a < length h"
  shows "\<exists>r h'. sortSubjects lc h a key = Some (r, h')
           \<and> r = length h \<and> r \<noteq> a \<and> length h' = Suc (length h)
           \<and> h' ! a = h ! a
           \<and> (\<forall>b < length h. h' ! b = h ! b)
           \<and> length (h' ! r) = length (h ! a)
           \<and> set (h' ! r) = set (h ! a)"
  using assms
  by (simp add: sortSubjects_def Let_def nth_append length_Array_sort set_Array_sort)

theorem sortSubjects_fresh_array_witness:
  "0 < length [processAllSubjects \<lparr>attendanceMode = ''ERP''\<rparr>
         (Some \<lparr>subjects = Some
          [(''A'', \<lparr>courseCode = ''A'', courseName = ''Algebra'',
              components = [(''L'', \<lparr>conducted = 10, attended = 9, tcbr = 0\<rparr>)]\<rparr>),
           (''B'', \<lparr>courseCode = ''B'', courseName = ''Biology'',
              components = [(''L'', \<lparr>conducted = 10, attended = 6, tcbr = 0\<rparr>)]\<rparr>)]\<rparr>) 75]
   \<and> (\<exists>r h'. sortSubjects (\<lambda>x y. 0)
         [processAllSubjects \<lparr>attendanceMode = ''ERP''\<rparr>
           (Some \<lparr>subjects = Some
            [(''A'', \<lparr>courseCode = ''A'', courseName = ''Algebra'',
                components = [(''L'', \<lparr>conducted = 10, attended = 9, tcbr = 0\<rparr>)]\<rparr>),
             (''B'', \<lparr>courseCode = ''B'', courseName = ''Biology'',
                components = [(''L'', \<lparr>conducted = 10, attended = 6, tcbr = 0\<rparr>)]\<rparr>)]\<rparr>) 75]
         0 ''percentage'' = Some (r, h')
       \<and> r = 1
       \<and> h' ! 0 = processAllSubjects \<lparr>attendanceMode = ''ERP''\<rparr>
           (Some \<lparr>subjects = Some
            [(''A'', \<lparr>courseCode = ''A'', courseName = ''Algebra'',
                components = [(''L'', \<lparr>conducted = 10, attended = 9, tcbr = 0\<rparr>)]\<rparr>),
             (''B'', \<lparr>courseCode = ''B'', courseName = ''Biology'',
                components = [(''L'', \<lparr>conducted = 10, attended = 6, tcbr = 0\<rparr>)]\<rparr>)]\<rparr>) 75)"
  using sortSubjects_fresh_array [where a = 0 and lc = "\<lambda>x y. 0" and key = "''percentage''"
      and h = "[processAllSubjects \<lparr>attendanceMode = ''ERP''\<rparr>
           (Some \<lparr>subjects = Some
            [(''A'', \<lparr>courseCode = ''A'', courseName = ''Algebra'',
                components = [(''L'', \<lparr>conducted = 10, attended = 9, tcbr = 0\<rparr>)]\<rparr>),
             (''B'', \<lparr>courseCode = ''B'', courseName = ''Biology'',
                components = [(''L'', \<lparr>conducted = 10, attended = 6, tcbr = 0\<rparr>)]\<rparr>)]\<rparr>) 75]"]
  by auto

section \<open>Ranges of percentages and derived quantities\<close>

lemma percentage_inRange: "inRange (calculateComponentPercentage this a c k)"
  using percentage_bounds by (simp add: inRange_def)

lemma percentage_antimono:
  "calculateComponentPercentage this a (c + 1) k \<le> calculateComponentPercentage this a c k"
proof (cases "c \<le> 0")
  case True
  then have "calculateComponentPercentage this a c k = 100"
    by (simp add: calculateComponentPercentage_def)
  then show ?thesis using percentage_bounds by simp
next
  case False
  define e where "e = getEffectiveAttended this a k"
  show ?thesis
  proof (cases "e < 0")
    case True
    with False show ?thesis
      by (simp add: calculateComponentPercentage_def Let_def e_def [symmetric] divide_simps)
  next
    case nonneg: False
    have "e / (c + 1) \<le> e / c"
      using False nonneg by (intro divide_left_mono) auto
    then have "e / (c + 1) * 100 \<le> e / c * 100"
      by (rule mult_right_mono) simp
    with False show ?thesis
      by (simp add: calculateComponentPercentage_def Let_def e_def [symmetric])
  qed
qed

lemma miss_inRange: "missInRange (simulateMissNextClass this a c t k)"
  using percentage_antimono [of this a c k]
  by (simp add: missInRange_def simulateMissNextClass_def Let_def percentage_inRange)

lemma needed_nonNegative: "nonNegative (classesNeededToReachThreshold this a c t k)"
  by (simp add: classesNeededToReachThreshold_def Let_def)

lemma dangerScore_nonneg: "0 \<le> calculateDangerScore p t"
  by (simp add: calculateDangerScore_def)

lemma subjectPercentageLoop_range:
  assumes "subjectPercentageLoop this comps (tp, n) = (tp', n')"
    and "0 \<le> tp" and "tp \<le> 100 * real n"
  shows "0 \<le> tp' \<and> tp' \<le> 100 * real n'"
  using assms
proof (induction comps arbitrary: tp n)
  case Nil
  then show ?case by simp
next
  case (Cons x rest)
  obtain ty c where x: "x = (ty, c)" by (cases x)
  show ?case
  proof (cases "0 < conducted c")
    case True
    let ?p = "calculateComponentPercentage this (attended c) (conducted c) (tcbr c)"
    from Cons.prems(1) True
    have "subjectPercentageLoop this rest (tp + ?p, n + 1) = (tp', n')"
      by (simp add: x)
    moreover have "0 \<le> tp + ?p" and "tp + ?p \<le> 100 * real (n + 1)"
      using Cons.prems(2,3) percentage_bounds [of this "attended c" "conducted c" "tcbr c"]
      by simp_all
    ultimately show ?thesis by (rule Cons.IH)
  next
    case False
    with Cons.prems(1) have "subjectPercentageLoop this rest (tp, n) = (tp', n')"
      by (simp add: x)
    then show ?thesis using Cons.prems(2,3) by (rule Cons.IH)
  qed
qed

lemma subjectPercentage_inRange: "inRange (calculateSubjectPercentage this comps)"
proof -
  obtain tp' n' where loop: "subjectPercentageLoop this comps (0, 0) = (tp', n')"
    by (cases "subjectPercentageLoop this comps (0, 0)")
  from subjectPercentageLoop_range [OF loop]
  have b: "0 \<le> tp'" "tp' \<le> 100 * real n'" by simp_all
  have "tp' / real n' \<le> 100" if "n' \<noteq> 0"
    using that b by (simp add: divide_simps mult.commute)
  with b show ?thesis
    by (simp add: calculateSubjectPercentage_def loop inRange_def)
qed

lemma in_set_AList_update:
  "(k', v') \<in> set (AList.update k v al) \<Longrightarrow> (k', v') = (k, v) \<or> (k', v') \<in> set al"
  by (induction al) (auto split: if_splits)

lemma subjectSimulationLoop_range:
  assumes "subjectSimulationLoop this t comps (cd, wc, wp, tot, mn) = (cd', wc', wp', tot', mn')"
    and "\<forall>(ty, c) \<in> set comps. validComponent c"
    and "\<forall>(ty, d) \<in> set cd. componentDataInRange d"
    and "inRange wp" and "nonNegative tot" and "nonNegative mn"
  shows "(\<forall>(ty, d) \<in> set cd'. componentDataInRange d)
       \<and> inRange wp' \<and> nonNegative tot' \<and> nonNegative mn'"
  using assms
proof (induction comps arbitrary: cd wc wp tot mn)
  case Nil
  then show ?case by simp
next
  case (Cons x rest)
  obtain ty c where x: "x = (ty, c)" by (cases x)
  from Cons.prems(2) have valid: "validComponent c"
    and rest: "\<forall>(ty, c) \<in> set rest. validComponent c"
    by (auto simp add: x)
  let ?p = "calculateComponentPercentage this (attended c) (conducted c) (tcbr c)"
  let ?n = "classesNeededToReachThreshold this (attended c) (conducted c) t (tcbr c)"
  let ?s = "classesCanSkip this (attended c) (conducted c) t (tcbr c)"
  let ?d = "\<lparr>conducted = conducted c, attended = attended c, tcbr = tcbr c,
             component_data.percentage = ?p, classesNeeded = ?n,
             component_data.canSkip = ?s, component_data.status = getStatus ?p t,
             nextClassSimulation = simulateMissNextClass this (attended c) (conducted c) t (tcbr c),
             effectiveAttended = getEffectiveAttended this (attended c) (tcbr c)\<rparr>"
  let ?cd = "AList.update ty ?d cd"
  let ?wc = "if ?p < wp then Some ty else wc"
  let ?wp = "if ?p < wp then ?p else wp"
  let ?tot = "if gt_zero ?n then plus_number tot ?n else tot"
  let ?mn = "if less_number ?s mn then Finite ?s else mn"
  have step: "subjectSimulationLoop this t rest (?cd, ?wc, ?wp, ?tot, ?mn) = (cd', wc', wp', tot', mn')"
    using Cons.prems(1) by (simp add: x Let_def)
  have d: "componentDataInRange ?d"
    using valid canSkip_bounds [of this "attended c" "conducted c" t "tcbr c"]
    by (simp add: componentDataInRange_def percentage_inRange needed_nonNegative miss_inRange
        validComponent_def effective_nonneg)
  have 1: "\<forall>(ty, d) \<in> set ?cd. componentDataInRange d"
    using Cons.prems(3) d by (auto dest!: in_set_AList_update)
  have 2: "inRange ?wp"
    using Cons.prems(4) by (simp add: percentage_inRange)
  have 3: "nonNegative ?tot"
    using Cons.prems(5) needed_nonNegative [of this "attended c" "conducted c" t "tcbr c"]
    by (cases tot; cases ?n) auto
  have 4: "nonNegative ?mn"
    using Cons.prems(6) canSkip_bounds [of this "attended c" "conducted c" t "tcbr c"]
    by simp
  show ?case
    by (rule Cons.IH [OF step rest 1 2 3 4])
qed

lemma subjectSimulation_range:
  assumes "comps \<noteq> []" and "\<forall>(ty, c) \<in> set comps. validComponent c"
  shows "simulationInRange (calculateSubjectSimulation this comps t)
       \<and> (\<exists>q. sim_percentage (calculateSubjectSimulation this comps t) = Some q \<and> inRange q)"
proof -
  obtain cd wc wp tot mn where
    loop: "subjectSimulationLoop this t comps ([], None, 100, Finite 0, Infinity) = (cd, wc, wp, tot, mn)"
    by (metis prod_cases5)
  have inv: "(\<forall>(ty, d) \<in> set cd. componentDataInRange d)
       \<and> inRange wp \<and> nonNegative tot \<and> nonNegative mn"
    by (rule subjectSimulationLoop_range [OF loop assms(2)]) (simp_all add: inRange_def)
  have tot: "0 \<le> Math_min tot 300"
    using inv by (cases tot) simp_all
  have mn: "0 \<le> (if mn = Infinity then 0 else Math_min mn 100)"
    using inv by (cases mn) simp_all
  show ?thesis
    using assms(1) inv tot mn
    by (simp add: calculateSubjectSimulation_def Let_def loop subjectPercentage_inRange
        dangerScore_nonneg)
qed

lemma totalsLoop_range:
  assumes "totalsLoop this comps (tc, ta, te) = (tc', ta', te')"
    and "\<forall>(ty, c) \<in> set comps. validComponent c"
    and "0 \<le> ta" and "ta \<le> tc" and "0 \<le> te"
  shows "0 \<le> ta' \<and> ta' \<le> tc' \<and> 0 \<le> te'"
  using assms
proof (induction comps arbitrary: tc ta te)
  case Nil
  then show ?case by simp
next
  case (Cons x rest)
  obtain ty c where x: "x = (ty, c)" by (cases x)
  from Cons.prems(2) have valid: "validComponent c"
    and rest: "\<forall>(ty, c) \<in> set rest. validComponent c"
    by (auto simp add: x)
  have step: "totalsLoop this rest
      (tc + conducted c, ta + attended c,
       te + getEffectiveAttended this (attended c) (tcbr c)) = (tc', ta', te')"
    using Cons.prems(1) by (simp add: x)
  have "0 \<le> getEffectiveAttended this (attended c) (tcbr c)"
    using valid by (simp add: validComponent_def effective_nonneg)
  then show ?case
    using Cons.prems(3,4,5) valid
    by (intro Cons.IH [OF step rest]) (simp_all add: validComponent_def)
qed

lemma processLoop_range:
  assumes "\<forall>(key, s) \<in> set entries.
             components s \<noteq> [] \<and> (\<forall>(ty, c) \<in> set (components s). validComponent c)"
    and "\<forall>p \<in> set acc. processedInRange p
           \<and> (\<exists>q. sim_percentage (simulation p) = Some q \<and> inRange q)"
  shows "\<forall>p \<in> set (processLoop this t entries acc). processedInRange p
           \<and> (\<exists>q. sim_percentage (simulation p) = Some q \<and> inRange q)"
  using assms
proof (induction entries arbitrary: acc)
  case Nil
  then show ?case by simp
next
  case (Cons x rest)
  obtain key s where x: "x = (key, s)" by (cases x)
  from Cons.prems(1) have ne: "components s \<noteq> []"
    and valid: "\<forall>(ty, c) \<in> set (components s). validComponent c"
    and rest: "\<forall>(key, s) \<in> set rest.
             components s \<noteq> [] \<and> (\<forall>(ty, c) \<in> set (components s). validComponent c)"
    by (auto simp add: x)
  obtain tc ta te where tot: "totalsLoop this (components s) (0, 0, 0) = (tc, ta, te)"
    by (metis prod_cases3)
  have totals: "0 \<le> ta \<and> ta \<le> tc \<and> 0 \<le> te"
    by (rule totalsLoop_range [OF tot valid]) simp_all
  let ?new = "\<lparr>courseCode = courseCode s, courseName = courseName s,
      components = components s, totalConducted = tc, totalAttended = ta,
      totalEffectiveAttended = te, totalAbsent = tc - ta,
      simulation = calculateSubjectSimulation this (components s) t\<rparr>"
  have new: "processedInRange ?new
           \<and> (\<exists>q. sim_percentage (simulation ?new) = Some q \<and> inRange q)"
    using totals subjectSimulation_range [OF ne valid, of this t]
    by (simp add: processedInRange_def)
  have step: "processLoop this t (x # rest) acc = processLoop this t rest (acc @ [?new])"
    by (simp add: x tot)
  have "\<forall>p \<in> set (acc @ [?new]). processedInRange p
           \<and> (\<exists>q. sim_percentage (simulation p) = Some q \<and> inRange q)"
    using Cons.prems(2) new by auto
  from Cons.IH [OF rest this] show ?case
    unfolding step .
qed

lemma aggregateLoop_total:
  assumes "aggregateLoop xs (Some v, a, b, c, mar, low) = (tp', a', b', c', mar', low')"
    and "\<forall>p \<in> set xs. \<exists>q. sim_percentage (simulation p) = Some q \<and> inRange q"
    and "0 \<le> v" and "v \<le> 100 * real n"
  shows "\<exists>v'. tp' = Some v' \<and> 0 \<le> v' \<and> v' \<le> 100 * real (n + length xs)"
  using assms
proof (induction xs arbitrary: v a b c mar low n)
  case Nil
  then show ?case by auto
next
  case (Cons x xs)
  from Cons.prems(2) obtain q where q: "sim_percentage (simulation x) = Some q"
    and range: "inRange q" by auto
  from Cons.prems(1) q obtain a1 b1 c1 mar1 low1 where
    step: "aggregateLoop xs (Some (v + q), a1, b1, c1, mar1, low1) = (tp', a', b', c', mar', low')"
    by (simp add: Let_def)
  have "\<exists>v'. tp' = Some v' \<and> 0 \<le> v' \<and> v' \<le> 100 * real (Suc n + length xs)"
  proof (rule Cons.IH [OF step])
    show "\<forall>p \<in> set xs. \<exists>q. sim_percentage (simulation p) = Some q \<and> inRange q"
      using Cons.prems(2) by simp
    show "0 \<le> v + q" using Cons.prems(3) range by (simp add: inRange_def)
    show "v + q \<le> 100 * real (Suc n)"
      using Cons.prems(4) range by (simp add: inRange_def)
  qed
  then show ?case by simp
qed

lemma averageAttendance_range:
  assumes "\<forall>p \<in> set xs. \<exists>q. sim_percentage (simulation p) = Some q \<and> inRange q"
  shows "\<exists>m. averageAttendance (calculateAggregateStats xs t) = Some m \<and> inRange m"
proof (cases "xs = []")
  case True
  then show ?thesis
    by (simp add: calculateAggregateStats_def inRange_def)
next
  case False
  obtain tp' a' b' c' mar' low' where
    loop: "aggregateLoop xs (Some 0, 0, 0, 0, None, 100) = (tp', a', b', c', mar', low')"
    by (metis prod_cases6)
  from aggregateLoop_total [OF loop assms, of 0]
  obtain v' where v: "tp' = Some v'" "0 \<le> v'" "v' \<le> 100 * real (length xs)"
    by auto
  have "v' / real (length xs) \<le> 100"
    using v False by (simp add: divide_simps mult.commute)
  with v False show ?thesis
    by (simp add: calculateAggregateStats_def Let_def loop inRange_def)
qed

text \<open>
  Claim C7, as stated: for all non-negative integer inputs with attended and carry-forward
  at most conducted, every percentage that an engine operation produces, the aggregate mean
  included, lies between 0 and 100. A subject with an empty component mapping satisfies the
  condition on the counts; its processed record has no percentage, so the sum of the
  percentages and with it the aggregate mean is \<^verbatim>\<open>NaN\<close>.
\<close>

theorem engine_values_in_range_counterexample:
  "averageAttendance
     (calculateAggregateStats
        (processAllSubjects \<lparr>attendanceMode = ''ERP''\<rparr>
           (Some \<lparr>subjects = Some [(''CS101'',
              \<lparr>courseCode = ''CS101'', courseName = ''Algorithms'', components = []\<rparr>)]\<rparr>) 75)
        75) = None"
  by (simp add: engine_defs)

text \<open>
  Claim C7, amended. For all inputs in which every subject has at least one component and
  every component has \<open>0 \<le> attended \<le> conducted\<close> and \<open>0 \<le> carryForward \<le> conducted\<close>
  (non-negative integers in particular), every percentage that an engine operation produces
  (component percentage, subject percentage, the percentages of the miss-next-class
  simulation, the weakest percentage, the aggregate mean) lies between 0 and 100, and no
  derived quantity is negative: the totals, \<^verbatim>\<open>totalAbsent\<close>, \<^verbatim>\<open>percentageDrop\<close>, the
  danger score, the classes needed and the skip capacities. The facts about a single
  component hold for all numbers.
\<close>

theorem engine_values_in_range:
  assumes "\<forall>(key, s) \<in> set entries.
             components s \<noteq> [] \<and> (\<forall>(ty, c) \<in> set (components s). validComponent c)"
  shows "inRange (calculateComponentPercentage this a c k)
    \<and> missInRange (simulateMissNextClass this a c t k)
    \<and> nonNegative (classesNeededToReachThreshold this a c t k)
    \<and> inRange (classesCanSkip this a c t k)
    \<and> inRange (calculateSubjectPercentage this comps)
    \<and> (\<forall>p \<in> set (processAllSubjects this (Some \<lparr>subjects = Some entries\<rparr>) t).
          processedInRange p)
    \<and> (\<exists>m. averageAttendance
              (calculateAggregateStats
                 (processAllSubjects this (Some \<lparr>subjects = Some entries\<rparr>) t) t) = Some m
            \<and> inRange m)"
proof -
  have all: "\<forall>p \<in> set (processLoop this t entries []). processedInRange p
           \<and> (\<exists>q. sim_percentage (simulation p) = Some q \<and> inRange q)"
    by (rule processLoop_range [OF assms]) simp
  then have "\<exists>m. averageAttendance (calculateAggregateStats (processLoop this t entries []) t)
      = Some m \<and> inRange m"
    by (intro averageAttendance_range) blast
  with all show ?thesis
    using canSkip_bounds [of this a c t k]
    by (simp add: processAllSubjects_def percentage_inRange miss_inRange
        subjectPercentage_inRange needed_nonNegative inRange_def [of "classesCanSkip this a c t k"])
qed

theorem engine_values_in_range_witness:
  "inRange (calculateSubjectPercentage \<lparr>attendanceMode = ''TCBR_CORRECTED''\<rparr>
       [(''L'', \<lparr>conducted = 10, attended = 9, tcbr = 2\<rparr>),
        (''P'', \<lparr>conducted = 4, attended = 1, tcbr = 0\<rparr>)])
   \<and> missInRange (simulateMissNextClass \<lparr>attendanceMode = ''TCBR_CORRECTED''\<rparr> 9 10 75 2)
   \<and> (\<exists>m. averageAttendance (calculateAggregateStats
         (processAllSubjects \<lparr>attendanceMode = ''TCBR_CORRECTED''\<rparr>
           (Some \<lparr>subjects = Some
             [(''A'', \<lparr>courseCode = ''A'', courseName = ''Algebra'',
                 components = [(''L'', \<lparr>conducted = 10, attended = 9, tcbr = 2\<rparr>),
                               (''P'', \<lparr>conducted = 4, attended = 1, tcbr = 0\<rparr>)]\<rparr>),
              (''B'', \<lparr>courseCode = ''B'', courseName = ''Biology'',
                 components = [(''L'', \<lparr>conducted = 0, attended = 0, tcbr = 0\<rparr>)]\<rparr>)]\<rparr>) 75)
         75) = Some m \<and> inRange m)"
  using engine_values_in_range [where this = "\<lparr>attendanceMode = ''TCBR_CORRECTED''\<rparr>"
      and t = 75 and a = 9 and c = 10 and k = 2
      and comps = "[(''L'', \<lparr>conducted = 10, attended = 9, tcbr = 2\<rparr>),
        (''P'', \<lparr>conducted = 4, attended = 1, tcbr = 0\<rparr>)]"
      and entries =
       "[(''A'', \<lparr>courseCode = ''A'', courseName = ''Algebra'',
           components = [(''L'', \<lparr>conducted = 10, attended = 9, tcbr = 2\<rparr>),
                         (''P'', \<lparr>conducted = 4, attended = 1, tcbr = 0\<rparr>)]\<rparr>),
        (''B'', \<lparr>courseCode = ''B'', courseName = ''Biology'',
           components = [(''L'', \<lparr>conducted = 0, attended = 0, tcbr = 0\<rparr>)]\<rparr>)]"]
  by (simp add: validComponent_def)

end
